theory Spec2Isabelle
  imports Main "HOL-Library.Sublist" "HOL-Library.Multiset"
begin

section \<open>Python strings\<close>

text \<open>
  A Python \<open>str\<close> is modelled as a \<open>string\<close>. The operations below are the ones
  \<open>research_graph.py\<close> calls on strings: \<open>startswith\<close>, \<open>in\<close>, \<open>strip(chars)\<close>,
  \<open>split(sep)\<close>, \<open>join\<close> and \<open>+\<close> (which is \<open>@\<close>).
\<close>

abbreviation NL :: string where
  "NL \<equiv> ''\<newline>''"

datatype error = AttributeError string | ValueError string

text \<open>\<open>s.startswith(p)\<close>\<close>

definition str_startswith :: "string \<Rightarrow> string \<Rightarrow> bool" where
  "str_startswith s p = prefix p s"

text \<open>\<open>p in s\<close>: \<open>p\<close> occurs in \<open>s\<close> as a contiguous substring.\<close>

definition str_in :: "string \<Rightarrow> string \<Rightarrow> bool" where
  "str_in p s = sublist p s"

text \<open>
  \<open>s.strip(chars)\<close>: the argument is a set of characters, not a prefix or a suffix;
  every leading and every trailing character of \<open>s\<close> that occurs in \<open>chars\<close> is removed.
\<close>

definition str_lstrip :: "string \<Rightarrow> string \<Rightarrow> string" where
  "str_lstrip s chars = dropWhile (\<lambda>c. c \<in> set chars) s"

definition str_rstrip :: "string \<Rightarrow> string \<Rightarrow> string" where
  "str_rstrip s chars = rev (dropWhile (\<lambda>c. c \<in> set chars) (rev s))"

definition str_strip :: "string \<Rightarrow> string \<Rightarrow> string" where
  "str_strip s chars = str_rstrip (str_lstrip s chars) chars"

text \<open>\<open>s.find(p)\<close>: the index of the first occurrence of \<open>p\<close> in \<open>s\<close>, if there is one.\<close>

fun str_find :: "string \<Rightarrow> string \<Rightarrow> nat option" where
  "str_find [] p = (if p = [] then Some 0 else None)"
| "str_find (c # cs) p =
     (if prefix p (c # cs) then Some 0 else map_option Suc (str_find cs p))"

text \<open>
  \<open>s.split(sep)\<close> for a non-empty separator: the pieces between the occurrences of
  \<open>sep\<close>, found from left to right without overlap.
\<close>

function split_pieces :: "string \<Rightarrow> string \<Rightarrow> string list" where
  "split_pieces s sep =
     (case str_find s sep of
        None \<Rightarrow> [s]
      | Some i \<Rightarrow>
          if sep = [] then [s]
          else take i s # split_pieces (drop (i + length sep) s) sep)"
  by pat_completeness auto
termination
proof (relation "measure (\<lambda>(s, sep). length s)")
  show "wf (measure (\<lambda>(s, sep). length s))" by simp
next
  fix s sep :: string and i
  assume found: "str_find s sep = Some i" and ne: "sep \<noteq> []"
  have bound: "j + length sep \<le> length t" if "str_find t sep = Some j" for t j
    using that
  proof (induction t arbitrary: j)
    case Nil
    then show ?case by (simp split: if_splits)
  next
    case (Cons c cs)
    show ?case
    proof (cases "prefix sep (c # cs)")
      case True
      then have "length sep \<le> length (c # cs)" by (rule prefix_length_le)
      with True Cons.prems show ?thesis by simp
    next
      case False
      with Cons.prems obtain k where "str_find cs sep = Some k" "j = Suc k" by auto
      with Cons.IH show ?thesis by fastforce
    qed
  qed
  have a: "i + length sep \<le> length s"
    using found by (rule bound)
  have b: "length sep \<noteq> 0"
    using ne by simp
  from a b have "length s - (i + length sep) < length s"
    by arith
  then show "((drop (i + length sep) s, sep), (s, sep)) \<in> measure (\<lambda>(s, sep). length s)"
    by simp
qed

declare split_pieces.simps [simp del]

text \<open>\<open>s.split(sep)\<close>; an empty separator raises \<open>ValueError\<close>.\<close>

definition str_split :: "string \<Rightarrow> string \<Rightarrow> error + string list" where
  "str_split s sep =
     (if sep = [] then Inl (ValueError ''empty separator'') else Inr (split_pieces s sep))"

text \<open>\<open>sep.join(xs)\<close>\<close>

fun str_join :: "string \<Rightarrow> string list \<Rightarrow> string" where
  "str_join sep [] = []"
| "str_join sep [x] = x"
| "str_join sep (x # y # ys) = x @ sep @ str_join sep (y # ys)"

section \<open>State, messages and node results\<close>

text \<open>
  A chat message carries its text in the attribute \<open>content\<close>. The model call
  \<open>llm.invoke\<close> takes a list of messages and returns a message object; it is an
  external collaborator and enters every node below as the parameter \<open>llm\<close>.
\<close>

datatype message =
    SystemMessage (message_content: string)
  | HumanMessage (message_content: string)
  | AIMessage (message_content: string)

text \<open>
  A value stored under a key of a node's result: a \<open>str\<close>, or a message object.
\<close>

datatype pyval = PStr string | PMessage message

text \<open>
  The state schemas. \<open>GenerateAnalystsState\<close> is declared in \<open>analyst_schema.py\<close>
  and has the four keys \<open>analyst_subgraph.py\<close> reads and writes;
  \<open>ResearchGraphState\<close> (\<open>research_schema.py\<close>) declares the same four keys
  followed by five more. The analyst class is a type parameter. Keys that the code
  reads by subscript are plain fields. The key \<open>human_analyst_feedback\<close> is read
  with \<open>state.get(..., "")\<close> and is set to \<open>None\<close> by the example flow, so its
  field is \<open>None\<close> when the key is absent, \<open>Some None\<close> when it holds Python's
  \<open>None\<close> and \<open>Some (Some s)\<close> when it holds the string \<open>s\<close>. The key
  \<open>content\<close> is declared \<open>str\<close>; \<open>write_report\<close> stores under it the object
  that the model call returned, so its field is a \<open>pyval\<close>.
\<close>

record 'a GenerateAnalystsState =
  topic :: string
  max_analysts :: int
  human_analyst_feedback :: "string option option"
  analysts :: "'a list"

record 'a ResearchGraphState = "'a GenerateAnalystsState" +
  sections :: "string list"
  introduction :: string
  content :: pyval
  conclusion :: string
  final_report :: string

text \<open>A node returns a dict with the keys it writes.\<close>

type_synonym update = "string \<rightharpoonup> pyval"

text \<open>\<open>d.get(key, default)\<close> on an optional entry.\<close>

definition dict_get :: "'v option \<Rightarrow> 'v \<Rightarrow> 'v" where
  "dict_get entry dflt = (case entry of None \<Rightarrow> dflt | Some v \<Rightarrow> v)"

text \<open>Truth value of an optional string: \<open>None\<close> and \<open>""\<close> are false.\<close>

definition truthy :: "string option \<Rightarrow> bool" where
  "truthy v = (case v of None \<Rightarrow> False | Some s \<Rightarrow> s \<noteq> [])"

section \<open>The human-review gate\<close>

text \<open>
  What a conditional edge returns: the name of the next node, the end marker, or one
  \<open>Send\<close> per parallel branch. A \<open>Send\<close> names its target node and carries the
  branch's input, here a dict with the keys \<open>analyst\<close> and \<open>messages\<close>.
\<close>

record 'a interview_input =
  analyst :: 'a
  messages :: "message list"

datatype 'a Send = Send string "'a interview_input"

datatype 'a edge = Node string | END | Sends "'a Send list"

text \<open>\<open>analyst_subgraph.py\<close>, \<open>should_continue\<close>\<close>

definition should_continue :: "('a, 'z) GenerateAnalystsState_scheme \<Rightarrow> 'a edge" where
  "should_continue state =
     (let feedback = dict_get (human_analyst_feedback state) (Some [])
      in if truthy feedback then Node ''create_analysts'' else END)"

text \<open>\<open>research_graph.py\<close>, \<open>initiate_all_interviews\<close>\<close>

definition initiate_all_interviews :: "('a, 'z) ResearchGraphState_scheme \<Rightarrow> 'a edge" where
  "initiate_all_interviews state =
     (let feedback = dict_get (human_analyst_feedback state) (Some [])
      in if truthy feedback then Node ''create_analysts''
         else
           (let topic' = topic state
            in Sends (map (\<lambda>a. Send ''conduct_interview''
                 \<lparr> analyst = a,
                   messages = [HumanMessage
                     (''So you said you were writing an article on '' @ topic' @ ''?'')] \<rparr>)
               (analysts state))))"

section \<open>Report writing\<close>

text \<open>
  The two instruction templates with their placeholders filled in, as
  \<open>str.format\<close> does; every line of a template ends with a newline.
\<close>

definition text_lines :: "string list \<Rightarrow> string" where
  "text_lines ls = concat (map (\<lambda>l. l @ NL) ls)"

definition report_writer_instructions :: "string \<Rightarrow> string \<Rightarrow> string" where
  "report_writer_instructions topic' context = text_lines
     [''You are a technical writer creating a report on this overall topic:'',
      [],
      topic',
      [],
      ''You have a team of analysts. Each analyst has done two things:'',
      [],
      ''1. They conducted an interview with an expert on a specific sub-topic.'',
      ''2. They write up their finding into a memo.'',
      [],
      ''Your task:'',
      [],
      ''1. You will be given a collection of memos from your analysts.'',
      ''2. Think carefully about the insights from each memo.'',
      ''3. Consolidate these into a crisp overall summary that ties together the central ideas from all of the memos.'',
      ''4. Summarize the central points in each memo into a cohesive single narrative.'',
      [],
      ''To format your report:'',
      [],
      ''1. Use markdown formatting.'',
      ''2. Include no pre-amble for the report.'',
      ''3. Use no sub-headings.'',
      ''4. Start your report with a single title header: ## Insights'',
      ''5. Do not mention any analyst names in your report.'',
      ''6. Preserve any citations in the memos, which will be annotated in brackets, for example [1] or [2].'',
      ''7. Create a final, consolidated list of sources and add to a Sources section with the '' @
        [CHR 0x27] @ ''## Sources'' @ [CHR 0x27] @ '' header.'',
      ''8. List your sources in order and do not repeat.'',
      [],
      ''[1] Source 1'',
      ''[2] Source 2'',
      [],
      ''Here are the memos from your analysts to build your report from:'',
      [],
      context]"

definition intro_conclusion_instructions :: "string \<Rightarrow> string \<Rightarrow> string" where
  "intro_conclusion_instructions topic' formatted_str_sections = text_lines
     [''You are a technical writer finishing a report on '' @ topic',
      [],
      ''You will be given all of the sections of the report.'',
      [],
      ''Your job is to write a crisp and compelling introduction or conclusion section.'',
      [],
      ''The user will instruct you whether to write the introduction or conclusion.'',
      [],
      ''Include no pre-amble for either section.'',
      [],
      ''Target around 100 words, crisply previewing (for introduction) or recapping (for conclusion) all of the sections of the report.'',
      [],
      ''Use markdown formatting.'',
      [],
      ''For your introduction, create a compelling title and use the # header for the title.'',
      [],
      ''For your introduction, use ## Introduction as the section header.'',
      [],
      ''For your conclusion, use ## Conclusion as the section header.'',
      [],
      ''Here are the sections to reflect on for writing: '' @ formatted_str_sections]"

text \<open>\<open>write_report\<close>: the result stores \<open>report\<close>, the object the model call returned.\<close>

definition write_report ::
  "(message list \<Rightarrow> message) \<Rightarrow> ('a, 'z) ResearchGraphState_scheme \<Rightarrow> update" where
  "write_report llm state =
     (let sections' = sections state;
          topic' = topic state;
          formatted_str_sections = str_join ''\<newline>\<newline>'' (map (\<lambda>section. section) sections');
          system_message = report_writer_instructions topic' formatted_str_sections;
          report = llm ([SystemMessage system_message] @
                        [HumanMessage ''Write a report based upon these memos.''])
      in [''content'' \<mapsto> PMessage report])"

text \<open>\<open>write_introduction\<close>: the result stores \<open>introduction.content\<close>.\<close>

definition write_introduction ::
  "(message list \<Rightarrow> message) \<Rightarrow> ('a, 'z) ResearchGraphState_scheme \<Rightarrow> update" where
  "write_introduction llm state =
     (let sections' = sections state;
          topic' = topic state;
          formatted_str_sections = str_join ''\<newline>\<newline>'' (map (\<lambda>section. section) sections');
          system_message = intro_conclusion_instructions topic' formatted_str_sections;
          introduction' = llm ([SystemMessage system_message] @
                               [HumanMessage ''Write an introduction for this report.''])
      in [''introduction'' \<mapsto> PStr (message_content introduction')])"

text \<open>\<open>write_conclusion\<close>: the result stores \<open>conclusion.content\<close>.\<close>

definition write_conclusion ::
  "(message list \<Rightarrow> message) \<Rightarrow> ('a, 'z) ResearchGraphState_scheme \<Rightarrow> update" where
  "write_conclusion llm state =
     (let sections' = sections state;
          topic' = topic state;
          formatted_str_sections = str_join ''\<newline>\<newline>'' (map (\<lambda>section. section) sections');
          system_message = intro_conclusion_instructions topic' formatted_str_sections;
          conclusion' = llm ([SystemMessage system_message] @
                             [HumanMessage ''Write a conclusion for this report.''])
      in [''conclusion'' \<mapsto> PStr (message_content conclusion')])"

section \<open>Report finalization\<close>

text \<open>
  \<open>finalize_report\<close>. A message object has no \<open>startswith\<close>, so a state whose
  \<open>content\<close> is one raises \<open>AttributeError\<close> at the first test. The unpacking
  \<open>content, sources = ...\<close> succeeds on exactly two pieces; a \<open>ValueError\<close> from
  \<open>split\<close> or from the unpacking is caught by the bare \<open>except\<close>, which leaves
  \<open>content\<close> as it was and sets \<open>sources\<close> to \<open>None\<close>.
\<close>

definition finalize_report :: "('a, 'z) ResearchGraphState_scheme \<Rightarrow> error + update" where
  "finalize_report state =
     (case content state of
        PMessage m \<Rightarrow> Inl (AttributeError ''startswith'')
      | PStr content0 \<Rightarrow>
          (let content1 =
                 (if str_startswith content0 ''## Insights''
                  then str_strip content0 ''## Insights'' else content0);
               (content2, sources) =
                 (if str_in ''## Sources'' content1
                  then (case str_split content1 ''\<newline>## Sources\<newline>'' of
                          Inr [c, s] \<Rightarrow> (c, Some s)
                        | _ \<Rightarrow> (content1, None))
                  else (content1, None));
               final_report0 =
                 introduction state @ ''\<newline>\<newline>---\<newline>\<newline>'' @ content2 @
                 ''\<newline>\<newline>---\<newline>\<newline>'' @ conclusion state;
               final_report1 =
                 (case sources of
                    None \<Rightarrow> final_report0
                  | Some s \<Rightarrow>
                      final_report0 @
                      ''\<newline>\<newline>---\<newline>\<newline>## Sources\<newline>\<newline>'' @ s)
           in Inr [''final_report'' \<mapsto> PStr final_report1]))"

section \<open>The sections accumulator\<close>

text \<open>
  \<open>research_schema.py\<close> annotates \<open>sections\<close> with the reducer \<open>operator.add\<close>:
  the value a branch writes is combined with the value already stored by list
  concatenation.
\<close>

definition sections_reducer :: "string list \<Rightarrow> string list \<Rightarrow> string list" where
  "sections_reducer current written = current @ written"

section \<open>Facts about the string operations\<close>

lemma str_find_None_iff: "str_find s p = None \<longleftrightarrow> \<not> sublist p s"
proof (induction s)
  case Nil
  then show ?case by simp
next
  case (Cons c cs)
  then show ?case by (simp add: sublist_Cons_right)
qed

lemma prefix_before_end:
  assumes "prefix p (a @ p @ b)" and "a \<noteq> []"
  shows "sublist p (a @ butlast p)"
proof (cases "p = []")
  case True
  then show ?thesis by simp
next
  case False
  have "length p \<le> length (a @ butlast p)"
    using assms(2) False by (cases a) simp_all
  moreover have "a @ p @ b = (a @ butlast p) @ (last p # b)"
    using False by simp
  ultimately have "prefix p (a @ butlast p)"
    using assms(1) by (metis prefix_length_prefix prefixI)
  then show ?thesis by (rule prefix_imp_sublist)
qed

lemma str_find_first:
  assumes "p \<noteq> []" and "\<not> sublist p (a @ butlast p)"
  shows "str_find (a @ p @ b) p = Some (length a)"
  using assms(2)
proof (induction a)
  case Nil
  from assms(1) obtain c cs where "p @ b = c # cs" by (cases p) auto
  moreover have "prefix p (p @ b)" by simp
  ultimately show ?case by simp
next
  case (Cons x xs)
  have np: "\<not> prefix p ((x # xs) @ p @ b)"
    using Cons.prems prefix_before_end [of p "x # xs" b] by blast
  have "\<not> sublist p (xs @ butlast p)"
    using Cons.prems by (simp add: sublist_Cons_right)
  then have "str_find (xs @ p @ b) p = Some (length xs)" by (rule Cons.IH)
  with np show ?case by simp
qed

lemma split_pieces_absent: "\<not> sublist sep s \<Longrightarrow> split_pieces s sep = [s]"
  by (subst split_pieces.simps) (simp add: str_find_None_iff [symmetric])

lemma split_pieces_first:
  assumes "sep \<noteq> []" and "\<not> sublist sep (a @ butlast sep)"
  shows "split_pieces (a @ sep @ b) sep = a # split_pieces b sep"
  using assms by (subst split_pieces.simps) (simp add: str_find_first)

lemma split_pieces_not_Nil: "split_pieces s sep \<noteq> []"
  by (subst split_pieces.simps) (simp split: option.split)

lemma split_pieces_present:
  assumes "sep \<noteq> []" and "sublist sep s"
  shows "\<exists>x y ys. split_pieces s sep = x # y # ys"
proof -
  from assms(2) obtain i where i: "str_find s sep = Some i"
    using str_find_None_iff [of s sep] by (cases "str_find s sep") auto
  obtain y ys where "split_pieces (drop (i + length sep) s) sep = y # ys"
    using split_pieces_not_Nil by (cases "split_pieces (drop (i + length sep) s) sep") auto
  with i assms(1) show ?thesis
    by (subst split_pieces.simps) simp
qed

lemma str_strip_sublist: "sublist (str_strip s chars) s"
proof -
  let ?P = "\<lambda>c. c \<in> set chars"
  let ?l = "dropWhile ?P s"
  have "prefix (rev (dropWhile ?P (rev ?l))) ?l"
    by (metis prefixI rev_append rev_rev_ident takeWhile_dropWhile_id)
  then have "sublist (rev (dropWhile ?P (rev ?l))) ?l" by (rule prefix_imp_sublist)
  moreover have "sublist ?l s"
    by (rule suffix_imp_sublist) (rule suffix_dropWhile)
  ultimately show ?thesis
    unfolding str_strip_def str_lstrip_def str_rstrip_def
    by (rule sublist_order.order_trans)
qed

lemma str_strip_marker:
  assumes "set m \<subseteq> set chars"
    and "rest = [] \<or> (hd rest \<notin> set chars \<and> last rest \<notin> set chars)"
  shows "str_strip (m @ rest) chars = rest"
proof -
  let ?P = "\<lambda>c. c \<in> set chars"
  have l: "dropWhile ?P (m @ rest) = dropWhile ?P rest"
    using assms(1) by (intro dropWhile_append2) auto
  show ?thesis
  proof (cases "rest = []")
    case True
    with l have "dropWhile ?P (m @ rest) = []" by simp
    with True show ?thesis by (simp only: str_strip_def str_lstrip_def str_rstrip_def) simp
  next
    case False
    with assms(2) have h: "\<not> ?P (hd rest)" and t: "\<not> ?P (last rest)" by auto
    from False h have "dropWhile ?P rest = rest" by (cases rest) auto
    moreover from False t have "dropWhile ?P (rev rest) = rev rest"
      by (cases "rev rest") (auto simp: last_rev [symmetric] hd_rev)
    ultimately show ?thesis
      using l by (simp add: str_strip_def str_lstrip_def str_rstrip_def)
  qed
qed

section \<open>Facts about report finalization\<close>

lemma str_find_SomeD:
  assumes "p \<noteq> []" and "str_find s p = Some i"
  shows "\<exists>a b. s = a @ p @ b \<and> length a = i \<and> \<not> sublist p (a @ butlast p)"
  using assms(2)
proof (induction s arbitrary: i)
  case Nil
  with assms(1) show ?case by simp
next
  case (Cons c cs)
  show ?case
  proof (cases "prefix p (c # cs)")
    case True
    then obtain b where "c # cs = p @ b" by (auto simp: prefix_def)
    moreover from True Cons.prems have "i = 0" by simp
    moreover have "\<not> sublist p (butlast p)"
      using assms(1) sublist_length_le [of p "butlast p"] by (cases p rule: rev_cases) auto
    ultimately show ?thesis by (intro exI [of _ "[]"] exI [of _ b]) simp
  next
    case False
    with Cons.prems obtain j where j: "str_find cs p = Some j" "i = Suc j" by auto
    from Cons.IH [OF j(1)] obtain a b
      where ab: "cs = a @ p @ b" "length a = j" "\<not> sublist p (a @ butlast p)" by blast
    have "\<not> prefix p (c # a @ butlast p)"
    proof
      assume "prefix p (c # a @ butlast p)"
      then have "prefix p ((c # a @ butlast p) @ (last p # b))" by (rule prefix_prefix)
      moreover have eq: "butlast p @ [last p] = p"
        using assms(1) by simp
      have "(c # a @ butlast p) @ (last p # b) = c # a @ (butlast p @ [last p]) @ b"
        by simp
      then have "(c # a @ butlast p) @ (last p # b) = c # a @ p @ b"
        by (simp only: eq)
      ultimately have "prefix p (c # a @ p @ b)"
        by (simp only:)
      with ab(1) have "prefix p (c # cs)" by simp
      with False show False by contradiction
    qed
    with ab(3) have "\<not> sublist p ((c # a) @ butlast p)"
      by (simp add: sublist_Cons_right)
    with ab(1,2) j(2) show ?thesis
      by (intro exI [of _ "c # a"] exI [of _ b]) simp
  qed
qed

lemma first_occurrence:
  fixes s p :: string
  assumes "p \<noteq> []" and "sublist p s"
  shows "\<exists>a b. s = a @ p @ b \<and> \<not> sublist p (a @ butlast p)"
proof -
  from assms(2) obtain i where "str_find s p = Some i"
    using str_find_None_iff [of s p] by (cases "str_find s p") auto
  from str_find_SomeD [OF assms(1) this] show ?thesis by blast
qed

lemma sources_in_separator: "sublist ''## Sources'' ''\<newline>## Sources\<newline>''"
proof -
  have "sublist ''## Sources'' (''\<newline>'' @ ''## Sources'' @ ''\<newline>'')"
    by (rule sublist_appendI)
  then show ?thesis by simp
qed

lemma finalize_report_split:
  assumes "content state = PStr content0"
    and c: "(if str_startswith content0 ''## Insights''
             then str_strip content0 ''## Insights'' else content0) = c"
    and "c = body @ ''\<newline>## Sources\<newline>'' @ srcs"
    and "\<not> sublist ''\<newline>## Sources\<newline>'' (body @ ''\<newline>## Sources'')"
    and "\<not> sublist ''\<newline>## Sources\<newline>'' srcs"
  shows "finalize_report state =
    Inr [''final_report'' \<mapsto> PStr (introduction state @ ''\<newline>\<newline>---\<newline>\<newline>'' @ body @
      ''\<newline>\<newline>---\<newline>\<newline>'' @ conclusion state @
      ''\<newline>\<newline>---\<newline>\<newline>## Sources\<newline>\<newline>'' @ srcs)]"
proof -
  let ?sep = "''\<newline>## Sources\<newline>''"
  have "sublist ?sep c"
    using assms(3) by (simp only: sublist_appendI)
  with sources_in_separator have a: "str_in ''## Sources'' c"
    unfolding str_in_def by (rule sublist_order.order_trans)
  have "\<not> sublist ?sep (body @ butlast ?sep)"
    using assms(4) by simp
  then have "split_pieces (body @ ?sep @ srcs) ?sep = body # split_pieces srcs ?sep"
    by (intro split_pieces_first) simp
  with assms(3,5) have b: "split_pieces c ?sep = [body, srcs]"
    by (simp add: split_pieces_absent)
  show ?thesis
    using assms(1) a b by (simp add: finalize_report_def str_split_def c)
qed

lemma finalize_report_again:
  assumes "content state = PStr content0"
    and c: "(if str_startswith content0 ''## Insights''
             then str_strip content0 ''## Insights'' else content0) = c"
    and "c = body @ ''\<newline>## Sources\<newline>'' @ srcs"
    and "\<not> sublist ''\<newline>## Sources\<newline>'' (body @ ''\<newline>## Sources'')"
    and "sublist ''\<newline>## Sources\<newline>'' srcs"
  shows "finalize_report state =
    Inr [''final_report'' \<mapsto> PStr (introduction state @ ''\<newline>\<newline>---\<newline>\<newline>'' @ c @
      ''\<newline>\<newline>---\<newline>\<newline>'' @ conclusion state)]"
proof -
  let ?sep = "''\<newline>## Sources\<newline>''"
  have "\<not> sublist ?sep (body @ butlast ?sep)"
    using assms(4) by simp
  then have "split_pieces (body @ ?sep @ srcs) ?sep = body # split_pieces srcs ?sep"
    by (intro split_pieces_first) simp
  moreover obtain x y ys where "split_pieces srcs ?sep = x # y # ys"
    using split_pieces_present [OF _ assms(5)] by auto
  ultimately have b: "split_pieces c ?sep = body # x # y # ys"
    using assms(3) by simp
  show ?thesis
    using assms(1) b by (simp add: finalize_report_def str_split_def c)
qed

lemma finalize_report_unsplit:
  assumes "content state = PStr content0"
    and c: "(if str_startswith content0 ''## Insights''
             then str_strip content0 ''## Insights'' else content0) = c"
    and "\<not> sublist ''\<newline>## Sources\<newline>'' c"
  shows "finalize_report state =
    Inr [''final_report'' \<mapsto> PStr (introduction state @ ''\<newline>\<newline>---\<newline>\<newline>'' @ c @
      ''\<newline>\<newline>---\<newline>\<newline>'' @ conclusion state)]"
proof -
  have b: "split_pieces c ''\<newline>## Sources\<newline>'' = [c]"
    using assms(3) by (rule split_pieces_absent)
  show ?thesis
    using assms(1) b by (simp add: finalize_report_def str_split_def c)
qed

lemma finalize_report_returns:
  assumes "content state = PStr content0"
  shows "\<exists>u. finalize_report state = Inr u"
  using assms
  by (simp add: finalize_report_def Let_def split: prod.split sum.split list.split option.split)

lemma finalize_report_no_header:
  assumes "content state = PStr content0"
    and c: "(if str_startswith content0 ''## Insights''
             then str_strip content0 ''## Insights'' else content0) = c"
    and "\<not> sublist ''## Sources'' c"
  shows "finalize_report state =
    Inr [''final_report'' \<mapsto> PStr (introduction state @ ''\<newline>\<newline>---\<newline>\<newline>'' @ c @
      ''\<newline>\<newline>---\<newline>\<newline>'' @ conclusion state)]"
  using assms(1,3) by (simp add: finalize_report_def str_in_def c)

section \<open>Facts about the accumulator and the prompts\<close>

lemma foldl_sections_reducer: "foldl sections_reducer current results = current @ concat results"
  by (induction results arbitrary: current) (simp_all add: sections_reducer_def)

lemma mset_concat_perm:
  assumes "mset xss = mset yss"
  shows "mset (concat xss) = mset (concat yss)"
proof -
  have "mset (concat xss) = sum_mset (image_mset mset (mset xss))" for xss :: "'a list list"
    by (induction xss) simp_all
  with assms show ?thesis by simp
qed

lemma sublist_text_lines: "x \<in> set ls \<Longrightarrow> sublist x (text_lines ls)"
proof (induction ls)
  case Nil
  then show ?case by simp
next
  case (Cons l ls)
  have eq: "text_lines (l # ls) = l @ NL @ text_lines ls"
    by (simp add: text_lines_def)
  show ?case
  proof (cases "x = l")
    case True
    then show ?thesis unfolding eq by (simp only: sublist_append_rightI)
  next
    case False
    with Cons have "sublist x (text_lines ls)" by simp
    then have "sublist x ((l @ NL) @ text_lines ls)" by (simp only: sublist_append simp_thms)
    then show ?thesis unfolding eq by simp
  qed
qed

lemma context_in_report_prompt: "sublist ctx (report_writer_instructions t ctx)"
  unfolding report_writer_instructions_def
  by (rule sublist_text_lines) simp

lemma context_in_intro_conclusion_prompt: "sublist ctx (intro_conclusion_instructions t ctx)"
proof -
  let ?l = "''Here are the sections to reflect on for writing: '' @ ctx"
  have "sublist ?l (intro_conclusion_instructions t ctx)"
    unfolding intro_conclusion_instructions_def
    by (rule sublist_text_lines) simp
  moreover have "sublist ctx ?l" by (rule sublist_append_leftI)
  ultimately show ?thesis by (rule sublist_order.order_trans [rotated])
qed

lemmas eval_simps = finalize_report_def str_startswith_def str_strip_def str_lstrip_def
  str_rstrip_def str_in_def str_split_def sublist_code split_pieces.simps

section \<open>Report finalization: the worked example\<close>

text \<open>
  Claim C1, as the code behaves. For the content
  \<open>"## Insights\nBody\n## Sources\n[1] A"\<close>, the introduction \<open>"Intro"\<close> and the
  conclusion \<open>"Concl"\<close>, \<open>finalize_report\<close> returns the final report
  \<open>"Intro\n\n---\n\n\nBody\n\n---\n\nConcl\n\n---\n\n## Sources\n\n[1] A"\<close>: the marker
  is stripped, the sources are extracted and reattached under the header
  \<open>"## Sources\n\n"\<close>, the parts are joined by \<open>"\n\n---\n\n"\<close>, and the newline that
  followed the marker stays at the head of the body.
\<close>

theorem finalize_report_example:
  "finalize_report
     (state\<lparr> content := PStr ''## Insights\<newline>Body\<newline>## Sources\<newline>[1] A'',
             introduction := ''Intro'', conclusion := ''Concl'' \<rparr>) =
   Inr [''final_report'' \<mapsto> PStr
     ''Intro\<newline>\<newline>---\<newline>\<newline>\<newline>Body\<newline>\<newline>---\<newline>\<newline>Concl\<newline>\<newline>---\<newline>\<newline>## Sources\<newline>\<newline>[1] A'']"
  by (simp add: eval_simps)

text \<open>
  Claim C1 as stated gives the body as \<open>"Body"\<close>, without the newline; on the state
  of the example the code does not return that report.
\<close>

theorem finalize_report_example_counterexample:
  "finalize_report
     \<lparr> topic = ''X'', max_analysts = 2, human_analyst_feedback = None,
       analysts = ([] :: unit list), sections = [],
       introduction = ''Intro'', content = PStr ''## Insights\<newline>Body\<newline>## Sources\<newline>[1] A'',
       conclusion = ''Concl'', final_report = [] \<rparr> \<noteq>
   Inr [''final_report'' \<mapsto> PStr
     ''Intro\<newline>\<newline>---\<newline>\<newline>Body\<newline>\<newline>---\<newline>\<newline>Concl\<newline>\<newline>---\<newline>\<newline>## Sources\<newline>\<newline>[1] A'']"
  by (simp add: eval_simps fun_eq_iff)

section \<open>Report finalization: the marker\<close>

text \<open>
  Claim C2 says that a content beginning with \<open>"## Insights"\<close> loses exactly that
  prefix and nothing else. The code tests the prefix with \<open>startswith\<close> and then
  calls \<open>strip("## Insights")\<close>, which removes characters of the set
  \<open>{#, space, I, n, s, i, g, h, t}\<close> from both ends. Evaluated on two contents:
  \<open>"## Insights\nAI is growing"\<close> loses its final \<open>"ing"\<close>, and
  \<open>"## Insights in short\nBody"\<close> loses \<open>" in sh"\<close> after the marker.
\<close>

theorem finalize_report_strip_characters:
  "finalize_report
     (state\<lparr> content := PStr ''## Insights\<newline>AI is growing'',
             introduction := ''Intro'', conclusion := ''Concl'' \<rparr>) =
   Inr [''final_report'' \<mapsto> PStr ''Intro\<newline>\<newline>---\<newline>\<newline>\<newline>AI is grow\<newline>\<newline>---\<newline>\<newline>Concl'']
   \<and>
   finalize_report
     (state\<lparr> content := PStr ''## Insights in short\<newline>Body'',
             introduction := ''Intro'', conclusion := ''Concl'' \<rparr>) =
   Inr [''final_report'' \<mapsto> PStr ''Intro\<newline>\<newline>---\<newline>\<newline>ort\<newline>Body\<newline>\<newline>---\<newline>\<newline>Concl'']"
  by (simp add: eval_simps)

section \<open>Report finalization: the sources\<close>

text \<open>
  Claim C3, as the code behaves. Let \<open>c\<close> be the content after the marker step.
  If \<open>"\n## Sources\n"\<close> occurs in \<open>c\<close>, then \<open>c\<close> is \<open>body + "\n## Sources\n" + srcs\<close>
  with no occurrence beginning inside \<open>body\<close> (the first occurrence). When the
  separator does not occur again in \<open>srcs\<close>, the report is assembled from \<open>body\<close>
  and ends with the sources section holding \<open>srcs\<close>. When it does occur again in
  \<open>srcs\<close>, and when it does not occur in \<open>c\<close> at all, \<open>sources\<close> is absent and \<open>c\<close> is
  kept unsplit. On every string content the step returns a result; it never raises.
\<close>

theorem finalize_report_sources:
  assumes "content state = PStr content0"
    and "c = (if str_startswith content0 ''## Insights''
              then str_strip content0 ''## Insights'' else content0)"
  shows
    "(str_in ''\<newline>## Sources\<newline>'' c \<longrightarrow>
        (\<exists>body srcs. c = body @ ''\<newline>## Sources\<newline>'' @ srcs \<and>
           \<not> str_in ''\<newline>## Sources\<newline>'' (body @ ''\<newline>## Sources''))) \<and>
     (c = body @ ''\<newline>## Sources\<newline>'' @ srcs \<and>
      \<not> str_in ''\<newline>## Sources\<newline>'' (body @ ''\<newline>## Sources'') \<and>
      \<not> str_in ''\<newline>## Sources\<newline>'' srcs \<longrightarrow>
        finalize_report state =
          Inr [''final_report'' \<mapsto> PStr
            (introduction state @ ''\<newline>\<newline>---\<newline>\<newline>'' @ body @
             ''\<newline>\<newline>---\<newline>\<newline>'' @ conclusion state @
             ''\<newline>\<newline>---\<newline>\<newline>## Sources\<newline>\<newline>'' @ srcs)]) \<and>
     (c = body @ ''\<newline>## Sources\<newline>'' @ srcs \<and>
      \<not> str_in ''\<newline>## Sources\<newline>'' (body @ ''\<newline>## Sources'') \<and>
      str_in ''\<newline>## Sources\<newline>'' srcs \<longrightarrow>
        finalize_report state =
          Inr [''final_report'' \<mapsto> PStr
            (introduction state @ ''\<newline>\<newline>---\<newline>\<newline>'' @ c @
             ''\<newline>\<newline>---\<newline>\<newline>'' @ conclusion state)]) \<and>
     (\<not> str_in ''\<newline>## Sources\<newline>'' c \<longrightarrow>
        finalize_report state =
          Inr [''final_report'' \<mapsto> PStr
            (introduction state @ ''\<newline>\<newline>---\<newline>\<newline>'' @ c @
             ''\<newline>\<newline>---\<newline>\<newline>'' @ conclusion state)]) \<and>
     (\<exists>u. finalize_report state = Inr u)"
proof (intro conjI impI)
  assume "str_in ''\<newline>## Sources\<newline>'' c"
  then have "sublist ''\<newline>## Sources\<newline>'' c" by (simp only: str_in_def)
  then have "\<exists>a b. c = a @ ''\<newline>## Sources\<newline>'' @ b \<and>
      \<not> sublist ''\<newline>## Sources\<newline>'' (a @ butlast ''\<newline>## Sources\<newline>'')"
    by (intro first_occurrence) simp
  then show "\<exists>body srcs. c = body @ ''\<newline>## Sources\<newline>'' @ srcs \<and>
      \<not> str_in ''\<newline>## Sources\<newline>'' (body @ ''\<newline>## Sources'')"
    by (simp add: str_in_def)
next
  assume h: "c = body @ ''\<newline>## Sources\<newline>'' @ srcs \<and>
      \<not> str_in ''\<newline>## Sources\<newline>'' (body @ ''\<newline>## Sources'') \<and>
      \<not> str_in ''\<newline>## Sources\<newline>'' srcs"
  have c: "(if str_startswith content0 ''## Insights''
            then str_strip content0 ''## Insights'' else content0) = c"
    using assms(2) by (rule sym)
  from h have h1: "c = body @ ''\<newline>## Sources\<newline>'' @ srcs"
    and h2: "\<not> sublist ''\<newline>## Sources\<newline>'' (body @ ''\<newline>## Sources'')"
    and h3: "\<not> sublist ''\<newline>## Sources\<newline>'' srcs"
    unfolding str_in_def by blast+
  show "finalize_report state =
      Inr [''final_report'' \<mapsto> PStr
        (introduction state @ ''\<newline>\<newline>---\<newline>\<newline>'' @ body @
         ''\<newline>\<newline>---\<newline>\<newline>'' @ conclusion state @
         ''\<newline>\<newline>---\<newline>\<newline>## Sources\<newline>\<newline>'' @ srcs)]"
    by (rule finalize_report_split [OF assms(1) c h1 h2 h3])
next
  assume h: "c = body @ ''\<newline>## Sources\<newline>'' @ srcs \<and>
      \<not> str_in ''\<newline>## Sources\<newline>'' (body @ ''\<newline>## Sources'') \<and>
      str_in ''\<newline>## Sources\<newline>'' srcs"
  have c: "(if str_startswith content0 ''## Insights''
            then str_strip content0 ''## Insights'' else content0) = c"
    using assms(2) by (rule sym)
  from h have h1: "c = body @ ''\<newline>## Sources\<newline>'' @ srcs"
    and h2: "\<not> sublist ''\<newline>## Sources\<newline>'' (body @ ''\<newline>## Sources'')"
    and h3: "sublist ''\<newline>## Sources\<newline>'' srcs"
    unfolding str_in_def by blast+
  show "finalize_report state =
      Inr [''final_report'' \<mapsto> PStr
        (introduction state @ ''\<newline>\<newline>---\<newline>\<newline>'' @ c @
         ''\<newline>\<newline>---\<newline>\<newline>'' @ conclusion state)]"
    by (rule finalize_report_again [OF assms(1) c h1 h2 h3])
next
  assume "\<not> str_in ''\<newline>## Sources\<newline>'' c"
  then have h: "\<not> sublist ''\<newline>## Sources\<newline>'' c"
    unfolding str_in_def .
  have c: "(if str_startswith content0 ''## Insights''
            then str_strip content0 ''## Insights'' else content0) = c"
    using assms(2) by (rule sym)
  show "finalize_report state =
      Inr [''final_report'' \<mapsto> PStr
        (introduction state @ ''\<newline>\<newline>---\<newline>\<newline>'' @ c @
         ''\<newline>\<newline>---\<newline>\<newline>'' @ conclusion state)]"
    by (rule finalize_report_unsplit [OF assms(1) c h])
next
  show "\<exists>u. finalize_report state = Inr u"
    using assms(1) by (rule finalize_report_returns)
qed

text \<open>
  The theorem at three contents: one separator (split), two separators (unsplit), and
  \<open>"## Sources"\<close> without the newlines around it (unsplit).
\<close>

theorem finalize_report_sources_witness:
  "finalize_report
     \<lparr> topic = ''X'', max_analysts = 2, human_analyst_feedback = None,
       analysts = ([] :: unit list), sections = [],
       introduction = ''Intro'', content = PStr ''Body\<newline>## Sources\<newline>[1] A'',
       conclusion = ''Concl'', final_report = [] \<rparr> =
   Inr [''final_report'' \<mapsto> PStr ''Intro\<newline>\<newline>---\<newline>\<newline>Body\<newline>\<newline>---\<newline>\<newline>Concl\<newline>\<newline>---\<newline>\<newline>## Sources\<newline>\<newline>[1] A'']
   \<and>
   finalize_report
     \<lparr> topic = ''X'', max_analysts = 2, human_analyst_feedback = None,
       analysts = ([] :: unit list), sections = [],
       introduction = ''Intro'', content = PStr ''a\<newline>## Sources\<newline>b\<newline>## Sources\<newline>c'',
       conclusion = ''Concl'', final_report = [] \<rparr> =
   Inr [''final_report'' \<mapsto> PStr ''Intro\<newline>\<newline>---\<newline>\<newline>a\<newline>## Sources\<newline>b\<newline>## Sources\<newline>c\<newline>\<newline>---\<newline>\<newline>Concl'']
   \<and>
   finalize_report
     \<lparr> topic = ''X'', max_analysts = 2, human_analyst_feedback = None,
       analysts = ([] :: unit list), sections = [],
       introduction = ''Intro'', content = PStr ''Body ## Sources'',
       conclusion = ''Concl'', final_report = [] \<rparr> =
   Inr [''final_report'' \<mapsto> PStr ''Intro\<newline>\<newline>---\<newline>\<newline>Body ## Sources\<newline>\<newline>---\<newline>\<newline>Concl'']"
proof (intro conjI)
  let ?s1 = "\<lparr> topic = ''X'', max_analysts = 2, human_analyst_feedback = None,
       analysts = ([] :: unit list), sections = [],
       introduction = ''Intro'', content = PStr ''Body\<newline>## Sources\<newline>[1] A'',
       conclusion = ''Concl'', final_report = [] \<rparr>"
  show "finalize_report ?s1 =
    Inr [''final_report'' \<mapsto> PStr ''Intro\<newline>\<newline>---\<newline>\<newline>Body\<newline>\<newline>---\<newline>\<newline>Concl\<newline>\<newline>---\<newline>\<newline>## Sources\<newline>\<newline>[1] A'']"
    using finalize_report_sources [of ?s1 "''Body\<newline>## Sources\<newline>[1] A''"
      "''Body\<newline>## Sources\<newline>[1] A''" "''Body''" "''[1] A''"]
    by (simp add: str_startswith_def str_in_def sublist_code)
next
  let ?s2 = "\<lparr> topic = ''X'', max_analysts = 2, human_analyst_feedback = None,
       analysts = ([] :: unit list), sections = [],
       introduction = ''Intro'', content = PStr ''a\<newline>## Sources\<newline>b\<newline>## Sources\<newline>c'',
       conclusion = ''Concl'', final_report = [] \<rparr>"
  show "finalize_report ?s2 =
    Inr [''final_report'' \<mapsto> PStr ''Intro\<newline>\<newline>---\<newline>\<newline>a\<newline>## Sources\<newline>b\<newline>## Sources\<newline>c\<newline>\<newline>---\<newline>\<newline>Concl'']"
    using finalize_report_sources [of ?s2 "''a\<newline>## Sources\<newline>b\<newline>## Sources\<newline>c''"
      "''a\<newline>## Sources\<newline>b\<newline>## Sources\<newline>c''" "''a''" "''b\<newline>## Sources\<newline>c''"]
    by (simp add: str_startswith_def str_in_def sublist_code)
next
  let ?s3 = "\<lparr> topic = ''X'', max_analysts = 2, human_analyst_feedback = None,
       analysts = ([] :: unit list), sections = [],
       introduction = ''Intro'', content = PStr ''Body ## Sources'',
       conclusion = ''Concl'', final_report = [] \<rparr>"
  show "finalize_report ?s3 =
    Inr [''final_report'' \<mapsto> PStr ''Intro\<newline>\<newline>---\<newline>\<newline>Body ## Sources\<newline>\<newline>---\<newline>\<newline>Concl'']"
    using finalize_report_sources [of ?s3 "''Body ## Sources''" "''Body ## Sources''"]
    by (simp add: str_startswith_def str_in_def sublist_code)
qed

text \<open>
  Claim C3 as stated splits every content in which the separator occurs at the first
  occurrence. In \<open>"a\n## Sources\nb\n## Sources\nc"\<close> the separator occurs, and the
  report is not the one with body \<open>"a"\<close> and sources \<open>"b\n## Sources\nc"\<close>.
\<close>

theorem finalize_report_sources_counterexample:
  "str_in ''\<newline>## Sources\<newline>'' ''a\<newline>## Sources\<newline>b\<newline>## Sources\<newline>c'' \<and>
   finalize_report
     \<lparr> topic = ''X'', max_analysts = 2, human_analyst_feedback = None,
       analysts = ([] :: unit list), sections = [],
       introduction = ''Intro'', content = PStr ''a\<newline>## Sources\<newline>b\<newline>## Sources\<newline>c'',
       conclusion = ''Concl'', final_report = [] \<rparr> \<noteq>
   Inr [''final_report'' \<mapsto> PStr ''Intro\<newline>\<newline>---\<newline>\<newline>a\<newline>\<newline>---\<newline>\<newline>Concl\<newline>\<newline>---\<newline>\<newline>## Sources\<newline>\<newline>b\<newline>## Sources\<newline>c'']"
  by (simp add: eval_simps fun_eq_iff)

section \<open>Report finalization: no sources\<close>

text \<open>
  Claim C4, as the code behaves. For a content that does not contain \<open>"## Sources"\<close>
  the report has no sources section: it is
  \<open>introduction + "\n\n---\n\n" + c + "\n\n---\n\n" + conclusion\<close> for a substring \<open>c\<close> of
  the content. When the content does not begin with \<open>"## Insights"\<close>, \<open>c\<close> is the full
  content unchanged. When the content is \<open>"## Insights"\<close> followed by a remainder that
  is empty, or that neither begins nor ends with a character of \<open>"## Insights"\<close>, \<open>c\<close>
  is that remainder.
\<close>

theorem finalize_report_without_sources:
  assumes "content state = PStr content0"
    and "\<not> str_in ''## Sources'' content0"
  shows
    "(\<not> str_startswith content0 ''## Insights'' \<longrightarrow>
        finalize_report state =
          Inr [''final_report'' \<mapsto> PStr
            (introduction state @ ''\<newline>\<newline>---\<newline>\<newline>'' @ content0 @ ''\<newline>\<newline>---\<newline>\<newline>'' @ conclusion state)]) \<and>
     (content0 = ''## Insights'' @ rest \<and>
      (rest = [] \<or> hd rest \<notin> set ''## Insights'' \<and> last rest \<notin> set ''## Insights'') \<longrightarrow>
        finalize_report state =
          Inr [''final_report'' \<mapsto> PStr
            (introduction state @ ''\<newline>\<newline>---\<newline>\<newline>'' @ rest @ ''\<newline>\<newline>---\<newline>\<newline>'' @ conclusion state)]) \<and>
     (\<exists>c. str_in c content0 \<and>
        finalize_report state =
          Inr [''final_report'' \<mapsto> PStr
            (introduction state @ ''\<newline>\<newline>---\<newline>\<newline>'' @ c @ ''\<newline>\<newline>---\<newline>\<newline>'' @ conclusion state)])"
proof -
  define c where "c = (if str_startswith content0 ''## Insights''
    then str_strip content0 ''## Insights'' else content0)"
  have sub: "sublist c content0"
    unfolding c_def by (simp add: str_strip_sublist)
  have none: "\<not> sublist ''## Sources'' c"
  proof
    assume "sublist ''## Sources'' c"
    then have "sublist ''## Sources'' content0"
      using sub by (rule sublist_order.order_trans)
    with assms(2) show False by (simp add: str_in_def)
  qed
  have fin: "finalize_report state =
      Inr [''final_report'' \<mapsto> PStr
        (introduction state @ ''\<newline>\<newline>---\<newline>\<newline>'' @ c @ ''\<newline>\<newline>---\<newline>\<newline>'' @ conclusion state)]"
    by (rule finalize_report_no_header [OF assms(1) c_def [symmetric] none])
  have plain: "c = content0" if "\<not> str_startswith content0 ''## Insights''"
    using that by (simp add: c_def)
  have marked: "c = rest"
    if "content0 = ''## Insights'' @ rest"
      and "rest = [] \<or> hd rest \<notin> set ''## Insights'' \<and> last rest \<notin> set ''## Insights''"
  proof -
    have "str_startswith content0 ''## Insights''"
      unfolding str_startswith_def that(1) by (rule prefixI) (rule refl)
    then have "c = str_strip (''## Insights'' @ rest) ''## Insights''"
      by (simp only: c_def that(1) if_True)
    also have "\<dots> = rest"
      using that(2) by (intro str_strip_marker) auto
    finally show ?thesis .
  qed
  from fin plain marked sub show ?thesis
    unfolding str_in_def by blast
qed

text \<open>
  The theorem at a content without the marker, and at \<open>"## Insights\nBody"\<close>, whose
  remainder \<open>"\nBody"\<close> begins with a newline and ends with \<open>y\<close>.
\<close>

theorem finalize_report_without_sources_witness:
  "finalize_report
     \<lparr> topic = ''X'', max_analysts = 2, human_analyst_feedback = None,
       analysts = ([] :: unit list), sections = [],
       introduction = ''Intro'', content = PStr ''Plain body'',
       conclusion = ''Concl'', final_report = [] \<rparr> =
   Inr [''final_report'' \<mapsto> PStr ''Intro\<newline>\<newline>---\<newline>\<newline>Plain body\<newline>\<newline>---\<newline>\<newline>Concl'']
   \<and>
   finalize_report
     \<lparr> topic = ''X'', max_analysts = 2, human_analyst_feedback = None,
       analysts = ([] :: unit list), sections = [],
       introduction = ''Intro'', content = PStr ''## Insights\<newline>Body'',
       conclusion = ''Concl'', final_report = [] \<rparr> =
   Inr [''final_report'' \<mapsto> PStr ''Intro\<newline>\<newline>---\<newline>\<newline>\<newline>Body\<newline>\<newline>---\<newline>\<newline>Concl'']"
proof (intro conjI)
  let ?p1 = "\<lparr> topic = ''X'', max_analysts = 2, human_analyst_feedback = None,
       analysts = ([] :: unit list), sections = [],
       introduction = ''Intro'', content = PStr ''Plain body'',
       conclusion = ''Concl'', final_report = [] \<rparr>"
  show "finalize_report ?p1 =
    Inr [''final_report'' \<mapsto> PStr ''Intro\<newline>\<newline>---\<newline>\<newline>Plain body\<newline>\<newline>---\<newline>\<newline>Concl'']"
    using finalize_report_without_sources [of ?p1 "''Plain body''"]
    by (simp add: str_startswith_def str_in_def sublist_code)
next
  let ?p2 = "\<lparr> topic = ''X'', max_analysts = 2, human_analyst_feedback = None,
       analysts = ([] :: unit list), sections = [],
       introduction = ''Intro'', content = PStr ''## Insights\<newline>Body'',
       conclusion = ''Concl'', final_report = [] \<rparr>"
  show "finalize_report ?p2 =
    Inr [''final_report'' \<mapsto> PStr ''Intro\<newline>\<newline>---\<newline>\<newline>\<newline>Body\<newline>\<newline>---\<newline>\<newline>Concl'']"
    using finalize_report_without_sources [of ?p2 "''## Insights\<newline>Body''" "''\<newline>Body''"]
    by (simp add: str_startswith_def str_in_def sublist_code)
qed

text \<open>
  Claim C4 as stated keeps the full content between the separators. The content
  \<open>"## Insights\nBody"\<close> does not contain \<open>"## Sources"\<close>, and the report is not
  \<open>introduction + "\n\n---\n\n" + content + "\n\n---\n\n" + conclusion\<close>.
\<close>

theorem finalize_report_without_sources_counterexample:
  "\<not> str_in ''## Sources'' ''## Insights\<newline>Body'' \<and>
   finalize_report
     \<lparr> topic = ''X'', max_analysts = 2, human_analyst_feedback = None,
       analysts = ([] :: unit list), sections = [],
       introduction = ''Intro'', content = PStr ''## Insights\<newline>Body'',
       conclusion = ''Concl'', final_report = [] \<rparr> \<noteq>
   Inr [''final_report'' \<mapsto> PStr ''Intro\<newline>\<newline>---\<newline>\<newline>## Insights\<newline>Body\<newline>\<newline>---\<newline>\<newline>Concl'']"
  by (simp add: eval_simps fun_eq_iff)

section \<open>Report writing: what is stored\<close>

text \<open>
  Claim C5 says that \<open>write_report\<close> stores the report string under \<open>content\<close>. The
  code stores the message object returned by the model call, where
  \<open>write_introduction\<close> stores the attribute \<open>content\<close> of its message. Evaluated
  for the sections \<open>["M1 [1]", "M2 [1]"]\<close> and a model call that answers
  \<open>"## Insights\nBody"\<close>: the value under \<open>content\<close> is the message object, and
  \<open>finalize_report\<close> on a state holding it raises \<open>AttributeError\<close>.
\<close>

theorem write_report_stores_message_object:
  "write_report (\<lambda>messages. AIMessage ''## Insights\<newline>Body'')
     \<lparr> topic = ''X'', max_analysts = 2, human_analyst_feedback = None,
       analysts = ([] :: unit list), sections = [''M1 [1]'', ''M2 [1]''],
       introduction = ''Intro'', content = PStr [],
       conclusion = ''Concl'', final_report = [] \<rparr> =
   [''content'' \<mapsto> PMessage (AIMessage ''## Insights\<newline>Body'')]
   \<and>
   finalize_report
     \<lparr> topic = ''X'', max_analysts = 2, human_analyst_feedback = None,
       analysts = ([] :: unit list), sections = [''M1 [1]'', ''M2 [1]''],
       introduction = ''Intro'', content = PMessage (AIMessage ''## Insights\<newline>Body''),
       conclusion = ''Concl'', final_report = [] \<rparr> =
   Inl (AttributeError ''startswith'')
   \<and>
   write_introduction (\<lambda>messages. AIMessage ''## Introduction\<newline>Text'')
     \<lparr> topic = ''X'', max_analysts = 2, human_analyst_feedback = None,
       analysts = ([] :: unit list), sections = [''M1 [1]'', ''M2 [1]''],
       introduction = ''Intro'', content = PStr [],
       conclusion = ''Concl'', final_report = [] \<rparr> =
   [''introduction'' \<mapsto> PStr ''## Introduction\<newline>Text'']"
  by (simp add: write_report_def write_introduction_def finalize_report_def)

section \<open>The human-review gate and the fan-out\<close>

text \<open>
  Claim C6. The gate regenerates exactly when the feedback is a non-empty string:
  then \<open>should_continue\<close> and \<open>initiate_all_interviews\<close> both return
  \<open>"create_analysts"\<close>. When the feedback is the empty string, \<open>None\<close> or absent,
  both take the proceed transition, as for an accepted panel: \<open>should_continue\<close>
  returns \<open>END\<close>, and \<open>initiate_all_interviews\<close> returns the interview fan-out,
  one \<open>Send\<close> to \<open>conduct_interview\<close> for each analyst of the current panel, in
  order, with that analyst and the opening question about the topic.
\<close>

theorem review_gate:
  "(human_analyst_feedback state = Some (Some s) \<and> s \<noteq> [] \<longrightarrow>
      should_continue state = Node ''create_analysts'' \<and>
      initiate_all_interviews state = Node ''create_analysts'') \<and>
   (human_analyst_feedback state = Some (Some []) \<or>
    human_analyst_feedback state = Some None \<or>
    human_analyst_feedback state = None \<longrightarrow>
      should_continue state = END \<and>
      initiate_all_interviews state =
        Sends (map (\<lambda>a. Send ''conduct_interview''
                 \<lparr> analyst = a,
                   messages = [HumanMessage
                     (''So you said you were writing an article on '' @ topic state @ ''?'')] \<rparr>)
               (analysts state)))"
  by (auto simp: should_continue_def initiate_all_interviews_def dict_get_def truthy_def)

text \<open>
  The theorem at the feedback \<open>"Add a CEO"\<close>, at the empty string, at \<open>None\<close> and at
  a state without the key, each with a panel of two analysts and the topic \<open>"X"\<close>.
\<close>

theorem review_gate_witness:
  "should_continue
     \<lparr> topic = ''X'', max_analysts = 2, human_analyst_feedback = Some (Some ''Add a CEO''),
       analysts = [''A1'', ''A2''], sections = [],
       introduction = ''Intro'', content = PStr ''c'',
       conclusion = ''Concl'', final_report = [] \<rparr> = (Node ''create_analysts'' :: string edge)
   \<and>
   initiate_all_interviews
     \<lparr> topic = ''X'', max_analysts = 2, human_analyst_feedback = Some (Some ''Add a CEO''),
       analysts = [''A1'', ''A2''], sections = [],
       introduction = ''Intro'', content = PStr ''c'',
       conclusion = ''Concl'', final_report = [] \<rparr> = Node ''create_analysts''
   \<and>
   should_continue
     \<lparr> topic = ''X'', max_analysts = 2, human_analyst_feedback = Some (Some []),
       analysts = [''A1'', ''A2''], sections = [],
       introduction = ''Intro'', content = PStr ''c'',
       conclusion = ''Concl'', final_report = [] \<rparr> = (END :: string edge)
   \<and>
   initiate_all_interviews
     \<lparr> topic = ''X'', max_analysts = 2, human_analyst_feedback = Some (Some []),
       analysts = [''A1'', ''A2''], sections = [],
       introduction = ''Intro'', content = PStr ''c'',
       conclusion = ''Concl'', final_report = [] \<rparr> =
     Sends
       [Send ''conduct_interview''
          \<lparr> analyst = ''A1'',
            messages = [HumanMessage ''So you said you were writing an article on X?''] \<rparr>,
        Send ''conduct_interview''
          \<lparr> analyst = ''A2'',
            messages = [HumanMessage ''So you said you were writing an article on X?''] \<rparr>]
   \<and>
   should_continue
     \<lparr> topic = ''X'', max_analysts = 2, human_analyst_feedback = Some None,
       analysts = [''A1'', ''A2''], sections = [],
       introduction = ''Intro'', content = PStr ''c'',
       conclusion = ''Concl'', final_report = [] \<rparr> = (END :: string edge)
   \<and>
   initiate_all_interviews
     \<lparr> topic = ''X'', max_analysts = 2, human_analyst_feedback = Some None,
       analysts = [''A1'', ''A2''], sections = [],
       introduction = ''Intro'', content = PStr ''c'',
       conclusion = ''Concl'', final_report = [] \<rparr> =
     Sends
       [Send ''conduct_interview''
          \<lparr> analyst = ''A1'',
            messages = [HumanMessage ''So you said you were writing an article on X?''] \<rparr>,
        Send ''conduct_interview''
          \<lparr> analyst = ''A2'',
            messages = [HumanMessage ''So you said you were writing an article on X?''] \<rparr>]
   \<and>
   should_continue
     \<lparr> topic = ''X'', max_analysts = 2, human_analyst_feedback = None,
       analysts = [''A1'', ''A2''], sections = [],
       introduction = ''Intro'', content = PStr ''c'',
       conclusion = ''Concl'', final_report = [] \<rparr> = (END :: string edge)
   \<and>
   initiate_all_interviews
     \<lparr> topic = ''X'', max_analysts = 2, human_analyst_feedback = None,
       analysts = [''A1'', ''A2''], sections = [],
       introduction = ''Intro'', content = PStr ''c'',
       conclusion = ''Concl'', final_report = [] \<rparr> =
     Sends
       [Send ''conduct_interview''
          \<lparr> analyst = ''A1'',
            messages = [HumanMessage ''So you said you were writing an article on X?''] \<rparr>,
        Send ''conduct_interview''
          \<lparr> analyst = ''A2'',
            messages = [HumanMessage ''So you said you were writing an article on X?''] \<rparr>]"
proof -
  let ?g1 = "\<lparr> topic = ''X'', max_analysts = 2, human_analyst_feedback = Some (Some ''Add a CEO''),
       analysts = [''A1'', ''A2''], sections = [],
       introduction = ''Intro'', content = PStr ''c'',
       conclusion = ''Concl'', final_report = [] \<rparr>"
  let ?g2 = "\<lparr> topic = ''X'', max_analysts = 2, human_analyst_feedback = Some (Some []),
       analysts = [''A1'', ''A2''], sections = [],
       introduction = ''Intro'', content = PStr ''c'',
       conclusion = ''Concl'', final_report = [] \<rparr>"
  let ?g3 = "\<lparr> topic = ''X'', max_analysts = 2, human_analyst_feedback = Some None,
       analysts = [''A1'', ''A2''], sections = [],
       introduction = ''Intro'', content = PStr ''c'',
       conclusion = ''Concl'', final_report = [] \<rparr>"
  let ?g4 = "\<lparr> topic = ''X'', max_analysts = 2, human_analyst_feedback = None,
       analysts = [''A1'', ''A2''], sections = [],
       introduction = ''Intro'', content = PStr ''c'',
       conclusion = ''Concl'', final_report = [] \<rparr>"
  let ?sends = "Sends
       [Send ''conduct_interview''
          \<lparr> analyst = ''A1'',
            messages = [HumanMessage ''So you said you were writing an article on X?''] \<rparr>,
        Send ''conduct_interview''
          \<lparr> analyst = ''A2'',
            messages = [HumanMessage ''So you said you were writing an article on X?''] \<rparr>]"
  have 1: "should_continue ?g1 = (Node ''create_analysts'' :: string edge) \<and>
      initiate_all_interviews ?g1 = Node ''create_analysts''"
    using review_gate [of ?g1 "''Add a CEO''"] by simp
  have 2: "should_continue ?g2 = (END :: string edge) \<and>
      initiate_all_interviews ?g2 = ?sends"
    using review_gate [of ?g2] by simp
  have 3: "should_continue ?g3 = (END :: string edge) \<and>
      initiate_all_interviews ?g3 = ?sends"
    using review_gate [of ?g3] by simp
  have 4: "should_continue ?g4 = (END :: string edge) \<and>
      initiate_all_interviews ?g4 = ?sends"
    using review_gate [of ?g4] by simp
  from 1 2 3 4 show ?thesis by blast
qed

text \<open>
  Claim C7. When the feedback is empty, \<open>None\<close> or absent, \<open>initiate_all_interviews\<close>
  returns exactly one \<open>Send\<close> to \<open>conduct_interview\<close> per element of \<open>analysts\<close>, in
  list order: the \<open>i\<close>-th carries the \<open>i\<close>-th analyst and one human message that
  mentions the topic. The number of dispatches is the number of analysts.
\<close>

theorem fan_out_one_per_analyst:
  assumes "human_analyst_feedback state = Some (Some []) \<or>
    human_analyst_feedback state = Some None \<or>
    human_analyst_feedback state = None"
  shows "\<exists>sends. initiate_all_interviews state = Sends sends \<and>
    length sends = length (analysts state) \<and>
    (\<forall>i < length (analysts state).
       sends ! i = Send ''conduct_interview''
         \<lparr> analyst = analysts state ! i,
           messages = [HumanMessage
             (''So you said you were writing an article on '' @ topic state @ ''?'')] \<rparr>)"
  using assms
  by (auto simp: initiate_all_interviews_def dict_get_def truthy_def)

text \<open>The theorem at a panel of two analysts and the topic \<open>"X"\<close>.\<close>

theorem fan_out_one_per_analyst_witness:
  "\<exists>sends. initiate_all_interviews
     \<lparr> topic = ''X'', max_analysts = 2, human_analyst_feedback = None,
       analysts = [''A1'', ''A2''], sections = [],
       introduction = ''Intro'', content = PStr ''c'',
       conclusion = ''Concl'', final_report = [] \<rparr> = Sends sends \<and>
   length sends = 2 \<and>
   sends ! 0 = Send ''conduct_interview''
     \<lparr> analyst = ''A1'',
       messages = [HumanMessage ''So you said you were writing an article on X?''] \<rparr> \<and>
   sends ! 1 = Send ''conduct_interview''
     \<lparr> analyst = ''A2'',
       messages = [HumanMessage ''So you said you were writing an article on X?''] \<rparr>"
proof -
  let ?g4 = "\<lparr> topic = ''X'', max_analysts = 2, human_analyst_feedback = None,
       analysts = [''A1'', ''A2''], sections = [],
       introduction = ''Intro'', content = PStr ''c'',
       conclusion = ''Concl'', final_report = [] \<rparr>"
  obtain sends where s: "initiate_all_interviews ?g4 = Sends sends"
      "length sends = length (analysts ?g4)"
      "\<forall>i < length (analysts ?g4).
         sends ! i = Send ''conduct_interview''
           \<lparr> analyst = analysts ?g4 ! i,
             messages = [HumanMessage
               (''So you said you were writing an article on '' @ topic ?g4 @ ''?'')] \<rparr>"
    using fan_out_one_per_analyst [of ?g4] by auto
  from s(3) have "sends ! 0 = Send ''conduct_interview''
     \<lparr> analyst = ''A1'',
       messages = [HumanMessage ''So you said you were writing an article on X?''] \<rparr>"
    by simp
  moreover from s(3) have "sends ! 1 = Send ''conduct_interview''
     \<lparr> analyst = ''A2'',
       messages = [HumanMessage ''So you said you were writing an article on X?''] \<rparr>"
    by simp
  moreover from s(2) have "length sends = 2" by simp
  ultimately show ?thesis using s(1) by blast
qed

section \<open>The sections accumulator: merge\<close>

text \<open>
  Claim C8. The reducer of \<open>sections\<close> is list concatenation. Fan-in applies it
  to the results of the branches one after the other, in the order in which they
  arrive (\<open>foldl\<close>). The merge is additive and append-only: what was stored stays
  as a prefix, and every branch's contribution is contained in the merged list, so
  none overwrites another. For two orders of the same collection of branch results,
  the merged lists hold the same multiset of strings.
\<close>

theorem sections_merge:
  "sections_reducer current written = current @ written \<and>
   prefix current (foldl sections_reducer current results) \<and>
   (\<forall>r \<in> set results. mset r \<subseteq># mset (foldl sections_reducer current results)) \<and>
   (mset results = mset results' \<longrightarrow>
      mset (foldl sections_reducer current results) = mset (foldl sections_reducer current results'))"
proof (intro conjI ballI impI)
  show "sections_reducer current written = current @ written"
    by (simp add: sections_reducer_def)
next
  show "prefix current (foldl sections_reducer current results)"
    unfolding foldl_sections_reducer by simp
next
  fix r assume "r \<in> set results"
  then obtain xs ys where "results = xs @ r # ys"
    by (auto simp: in_set_conv_decomp)
  then show "mset r \<subseteq># mset (foldl sections_reducer current results)"
    unfolding foldl_sections_reducer by simp
next
  assume "mset results = mset results'"
  then have "mset (concat results) = mset (concat results')"
    by (rule mset_concat_perm)
  then show "mset (foldl sections_reducer current results) = mset (foldl sections_reducer current results')"
    unfolding foldl_sections_reducer by simp
qed

text \<open>The theorem at three interview results merged in two different orders.\<close>

theorem sections_merge_witness:
  "mset (foldl sections_reducer [''S0''] [[''M1''], [''M2''], [''M3'']]) =
   mset (foldl sections_reducer [''S0''] [[''M3''], [''M1''], [''M2'']]) \<and>
   mset [''M2''] \<subseteq># mset (foldl sections_reducer [''S0''] [[''M1''], [''M2''], [''M3'']])"
proof -
  have "mset [[''M1''], [''M2''], [''M3'']] = mset [[''M3''], [''M1''], [''M2'']]"
    by (simp add: add.commute add.left_commute)
  moreover have "[''M2''] \<in> set [[''M1''], [''M2''], [''M3'']]"
    by simp
  ultimately show ?thesis
    using sections_merge [of "[''S0'']" "[]" "[[''M1''], [''M2''], [''M3'']]"
        "[[''M3''], [''M1''], [''M2'']]"]
    by blast
qed

section \<open>Report writing: the shared context\<close>

text \<open>
  Claim C9. \<open>write_report\<close>, \<open>write_introduction\<close> and \<open>write_conclusion\<close> each
  compute \<open>"\n\n".join(sections)\<close> from the state and put it into the system message
  of their model call: the three calls receive the same concatenated section text,
  and that text occurs in each of the two filled-in templates.
\<close>

theorem same_context:
  "(let ctx = str_join ''\<newline>\<newline>'' (sections state) in
     write_report llm state =
       [''content'' \<mapsto> PMessage (llm
          [SystemMessage (report_writer_instructions (topic state) ctx),
           HumanMessage ''Write a report based upon these memos.''])] \<and>
     write_introduction llm state =
       [''introduction'' \<mapsto> PStr (message_content (llm
          [SystemMessage (intro_conclusion_instructions (topic state) ctx),
           HumanMessage ''Write an introduction for this report.'']))] \<and>
     write_conclusion llm state =
       [''conclusion'' \<mapsto> PStr (message_content (llm
          [SystemMessage (intro_conclusion_instructions (topic state) ctx),
           HumanMessage ''Write a conclusion for this report.'']))] \<and>
     str_in ctx (report_writer_instructions (topic state) ctx) \<and>
     str_in ctx (intro_conclusion_instructions (topic state) ctx))"
  by (simp add: Let_def write_report_def write_introduction_def write_conclusion_def
      str_in_def context_in_report_prompt context_in_intro_conclusion_prompt)

section \<open>Report finalization: the frame\<close>

text \<open>
  Claim C10. Whenever \<open>finalize_report\<close> returns, the update it returns has the
  single key \<open>final_report\<close>: it writes none of \<open>topic\<close>, \<open>max_analysts\<close>,
  \<open>human_analyst_feedback\<close>, \<open>analysts\<close>, \<open>sections\<close>, \<open>introduction\<close>, \<open>content\<close>
  and \<open>conclusion\<close>.
\<close>

theorem finalize_report_writes_final_report_only:
  "finalize_report state = Inr u \<longrightarrow>
     dom u = {''final_report''} \<and>
     u ''topic'' = None \<and> u ''max_analysts'' = None \<and>
     u ''human_analyst_feedback'' = None \<and> u ''analysts'' = None \<and>
     u ''sections'' = None \<and> u ''introduction'' = None \<and>
     u ''content'' = None \<and> u ''conclusion'' = None"
proof
  assume r: "finalize_report state = Inr u"
  then obtain content0 where c: "content state = PStr content0"
    by (cases "content state") (simp_all add: finalize_report_def)
  from r c obtain report where "u = [''final_report'' \<mapsto> PStr report]"
    by (auto simp: finalize_report_def Let_def
        split: prod.splits sum.splits list.splits option.splits if_splits)
  then show "dom u = {''final_report''} \<and>
     u ''topic'' = None \<and> u ''max_analysts'' = None \<and>
     u ''human_analyst_feedback'' = None \<and> u ''analysts'' = None \<and>
     u ''sections'' = None \<and> u ''introduction'' = None \<and>
     u ''content'' = None \<and> u ''conclusion'' = None"
    by simp
qed

text \<open>The theorem at a state whose content is \<open>"Body"\<close>.\<close>

theorem finalize_report_writes_final_report_only_witness:
  "\<exists>u. finalize_report
     \<lparr> topic = ''X'', max_analysts = 2, human_analyst_feedback = None,
       analysts = ([] :: unit list), sections = [],
       introduction = ''Intro'', content = PStr ''Body'',
       conclusion = ''Concl'', final_report = [] \<rparr> = Inr u \<and>
   dom u = {''final_report''} \<and> u ''content'' = None \<and> u ''sections'' = None"
proof -
  let ?f1 = "\<lparr> topic = ''X'', max_analysts = 2, human_analyst_feedback = None,
       analysts = ([] :: unit list), sections = [],
       introduction = ''Intro'', content = PStr ''Body'',
       conclusion = ''Concl'', final_report = [] \<rparr>"
  have "content ?f1 = PStr ''Body''" by simp
  then obtain u where u: "finalize_report ?f1 = Inr u"
    using finalize_report_returns by blast
  with finalize_report_writes_final_report_only [of ?f1 u]
  have "dom u = {''final_report''} \<and> u ''content'' = None \<and> u ''sections'' = None"
    by blast
  with u show ?thesis by blast
qed

end
